theory Spec2Isabelle
  imports Complex_Main
begin

section \<open>BioDaemon: the fatigue counter and the session lock monitor\<close>

text \<open>
  A shallow embedding of \<^verbatim>\<open>daemon.py\<close>. The object \<^verbatim>\<open>self\<close> is a record that each
  method takes and returns. Python's unbounded integers are \<^typ>\<open>int\<close>; the wall clock
  (\<^verbatim>\<open>time.time()\<close>, a float) and the durations computed from it are \<^typ>\<open>real\<close>;
  the state names \<^verbatim>\<open>"round"\<close> ... \<^verbatim>\<open>"tombstone"\<close> are the constructors of a datatype.
\<close>

subsection \<open>Settings\<close>

definition DEBUG_MODE :: bool where "DEBUG_MODE = False"

definition LIMIT_ROUND :: int where "LIMIT_ROUND = 45"
definition LIMIT_SLOUCH :: int where "LIMIT_SLOUCH = 60"
definition LIMIT_MELT :: int where "LIMIT_MELT = 70"
definition LIMIT_FLAT :: int where "LIMIT_FLAT = 80"
definition LIMIT_DEATH :: int where "LIMIT_DEATH = 80"

definition MIN_BREAK_TIME :: int where "MIN_BREAK_TIME = 2"
definition FULL_RESET_TIME :: int where "FULL_RESET_TIME = 15"

subsection \<open>The daemon object\<close>

datatype fatigue_state = Round | Slouch | Melt | Flat | Tombstone

text \<open>
  The tray notifications that \<^verbatim>\<open>safe_notify\<close> is asked to show. The two numbers of
  \<open>Welcome_Back\<close> are the recovered amount and the healthy minutes left, which the
  source formats into the message body.
\<close>

datatype notification = Perfect_Break | Welcome_Back int int | RIP

text \<open>
  Truthiness of a pointer-like value that is \<^verbatim>\<open>None\<close> or an integer: \<^verbatim>\<open>None\<close> and
  \<open>0\<close> are false.
\<close>

fun truthy :: "nat option \<Rightarrow> bool" where
  "truthy None = False"
| "truthy (Some p) = (p \<noteq> 0)"

record daemon =
  fatigue :: int
  state :: fatigue_state
  running :: bool
  icon :: bool                        \<comment> \<open>whether \<^verbatim>\<open>self.icon\<close> is set\<close>
  icon_image :: fatigue_state         \<comment> \<open>the image the tray icon shows\<close>
  notifications :: "notification list"  \<comment> \<open>what was passed to \<^verbatim>\<open>icon.notify\<close>, oldest first\<close>
  is_locked :: bool
  lock_start_time :: real
  session_events :: bool              \<comment> \<open>\<^verbatim>\<open>_session_events\<close>\<close>
  wndproc :: "nat option"             \<comment> \<open>\<^verbatim>\<open>_wndproc\<close>: the installed callback\<close>
  orig_wndproc :: "nat option"        \<comment> \<open>\<^verbatim>\<open>_orig_wndproc\<close>\<close>
  hwnd :: "nat option"                \<comment> \<open>\<^verbatim>\<open>_hwnd\<close>\<close>

definition init :: daemon where
  "init = \<lparr> fatigue = 0, state = Round, running = True, icon = False, icon_image = Round,
            notifications = [], is_locked = False, lock_start_time = 0,
            session_events = False, wndproc = None, orig_wndproc = None, hwnd = None \<rparr>"

subsection \<open>Helper functions\<close>

definition safe_notify :: "notification \<Rightarrow> daemon \<Rightarrow> daemon" where
  "safe_notify n d = (if icon d then d\<lparr>notifications := notifications d @ [n]\<rparr> else d)"

definition get_current_state :: "daemon \<Rightarrow> fatigue_state" where
  "get_current_state d =
     (if fatigue d < LIMIT_ROUND then Round
      else if fatigue d < LIMIT_SLOUCH then Slouch
      else if fatigue d < LIMIT_MELT then Melt
      else if fatigue d < LIMIT_FLAT then Flat
      else Tombstone)"

text \<open>
  \<^verbatim>\<open>update_icon\<close>: the tray menu that the source rebuilds here is a function of the
  fatigue alone and is not stored in the model.
\<close>

definition update_icon :: "daemon \<Rightarrow> daemon" where
  "update_icon d =
     (let new_state = get_current_state d in
      if new_state \<noteq> state d then
        (let d1 = d\<lparr>state := new_state\<rparr> in
         if icon d1 then
           (let d2 = d1\<lparr>icon_image := new_state\<rparr> in
            if new_state = Tombstone then safe_notify RIP d2 else d2)
         else d1)
      else d)"

subsection \<open>Fatigue and recovery\<close>

datatype heal_result = FULL_RESET | Amount int

definition calculate_healing :: "int \<Rightarrow> heal_result" where
  "calculate_healing minutes_away =
     (if minutes_away < MIN_BREAK_TIME then Amount 0
      else if minutes_away \<ge> FULL_RESET_TIME then FULL_RESET
      else if minutes_away < 5 then Amount (minutes_away * 2)
      else Amount (minutes_away * 4))"

definition clamp_fatigue :: "daemon \<Rightarrow> daemon" where
  "clamp_fatigue d = d\<lparr>fatigue := max 0 (min (fatigue d) LIMIT_DEATH)\<rparr>"

text \<open>Python's \<^verbatim>\<open>int(x)\<close> on a float: truncation towards zero.\<close>

definition py_int :: "real \<Rightarrow> int" where
  "py_int x = (if 0 \<le> x then \<lfloor>x\<rfloor> else \<lceil>x\<rceil>)"

definition minutes_of :: "real \<Rightarrow> int" where
  "minutes_of duration_seconds = py_int (duration_seconds / (if DEBUG_MODE then 1 else 60))"

definition handle_unlock_heal :: "real \<Rightarrow> daemon \<Rightarrow> daemon" where
  "handle_unlock_heal duration_seconds d =
     (let minutes_away = minutes_of duration_seconds;
          d1 = (if fatigue d < LIMIT_DEATH then
                  (case calculate_healing minutes_away of
                     FULL_RESET \<Rightarrow> safe_notify Perfect_Break (d\<lparr>fatigue := 0\<rparr>)
                   | Amount h \<Rightarrow>
                       if h > 0 then
                         (let d' = d\<lparr>fatigue := max 0 (fatigue d - h)\<rparr>;
                              safe_minutes_left = max 0 (LIMIT_ROUND - fatigue d')
                          in safe_notify (Welcome_Back h safe_minutes_left) d')
                       else d)
                else d)
      in update_icon (clamp_fatigue d1))"

text \<open>
  The manual reset of \<^verbatim>\<open>run_main_loop\<close>, taken when the user confirms the dialog.
\<close>

definition resurrect :: "daemon \<Rightarrow> daemon" where
  "resurrect d = update_icon (clamp_fatigue (d\<lparr>fatigue := 0\<rparr>))"

subsection \<open>Native calls\<close>

text \<open>
  A call into the operating system (through \<^verbatim>\<open>ctypes\<close>, or \<^verbatim>\<open>root.winfo_id()\<close>)
  either raises a Python exception or returns a value; a returned value may itself report
  failure (a null handle, a false \<^verbatim>\<open>BOOL\<close>). What each call does on a given run is an
  input of the model. Pointers and handles are numbers, \<open>0\<close> being \<^verbatim>\<open>NULL\<close>.
\<close>

datatype exn = Native_Exception

datatype 'a native = Raises | Returns 'a

datatype native_call =
    GetWindowLongPtrW nat
  | SetWindowLongPtrW nat nat
  | WTSRegisterSessionNotification nat
  | WTSUnRegisterSessionNotification nat

text \<open>
  A result of type \<^verbatim>\<open>c_void_p\<close> arrives in Python as \<^verbatim>\<open>None\<close> when it is null, and
  \<^verbatim>\<open>c_void_p(None)\<close> is the null pointer.
\<close>

definition void_p_result :: "nat \<Rightarrow> nat option" where
  "void_p_result p = (if p = 0 then None else Some p)"

fun c_void_p :: "nat option \<Rightarrow> nat" where
  "c_void_p None = 0"
| "c_void_p (Some p) = p"

subsection \<open>Windows lock/unlock integration\<close>

definition WM_WTSSESSION_CHANGE :: nat where "WM_WTSSESSION_CHANGE = 0x02B1"
definition WTS_SESSION_LOCK :: nat where "WTS_SESSION_LOCK = 0x7"
definition WTS_SESSION_UNLOCK :: nat where "WTS_SESSION_UNLOCK = 0x8"

text \<open>
  The replacement window procedure \<^verbatim>\<open>py_wndproc\<close>, on a message \<open>msg\<close> with parameter
  \<open>wParam\<close> arriving when the clock reads \<open>now\<close>. Its effect on the daemon is modelled;
  the message is then forwarded to the original procedure when one is stored.
\<close>

definition py_wndproc :: "nat \<Rightarrow> nat \<Rightarrow> real \<Rightarrow> daemon \<Rightarrow> daemon" where
  "py_wndproc msg wParam now d =
     (if msg = WM_WTSSESSION_CHANGE then
        (if wParam = WTS_SESSION_LOCK then
           d\<lparr>is_locked := True, lock_start_time := now\<rparr>
         else if wParam = WTS_SESSION_UNLOCK then
           (let unlock_time = now;
                duration = (if lock_start_time d \<noteq> 0 then unlock_time - lock_start_time d else 0)
            in handle_unlock_heal duration (d\<lparr>is_locked := False, lock_start_time := 0\<rparr>))
         else d)
      else d)"

record install_env =
  winfo_id :: "nat native"              \<comment> \<open>\<^verbatim>\<open>root.winfo_id()\<close> and its conversion to a handle\<close>
  get_window_long :: "nat native"       \<comment> \<open>what \<^verbatim>\<open>GetWindowLongPtrW\<close> returns\<close>
  swap_result :: "nat native"           \<comment> \<open>what the installing \<^verbatim>\<open>SetWindowLongPtrW\<close> returns\<close>
  register_result :: "bool native"      \<comment> \<open>what \<^verbatim>\<open>WTSRegisterSessionNotification\<close> returns\<close>
  rollback_result :: "nat native"       \<comment> \<open>what the restoring \<^verbatim>\<open>SetWindowLongPtrW\<close> returns\<close>
  py_wndproc_ptr :: nat                 \<comment> \<open>the address of the callback\<close>

text \<open>
  \<^verbatim>\<open>install_session_notifications\<close>. The first argument says whether
  \<^verbatim>\<open>sys.platform\<close> is \<^verbatim>\<open>"win32"\<close>. The result is the daemon together with the native
  calls issued, in order; an exception of a call that the source does not guard leaves
  the method.
\<close>

definition install_session_notifications ::
  "bool \<Rightarrow> install_env \<Rightarrow> daemon \<Rightarrow> exn + daemon \<times> native_call list" where
  "install_session_notifications win32 e d =
     (if \<not> win32 then Inr (d, [])
      else
        case winfo_id e of
          Raises \<Rightarrow> Inr (d\<lparr>hwnd := None\<rparr>, [])
        | Returns hwnd_int \<Rightarrow>
            (let d1 = d\<lparr>hwnd := Some hwnd_int\<rparr> in
             case get_window_long e of
               Raises \<Rightarrow> Inl Native_Exception
             | Returns orig_wndproc_ptr \<Rightarrow>
                 (let d2 = d1\<lparr>orig_wndproc := void_p_result orig_wndproc_ptr\<rparr>;
                      c2 = [GetWindowLongPtrW hwnd_int,
                            SetWindowLongPtrW hwnd_int (py_wndproc_ptr e)]
                  in
                  case swap_result e of
                    Raises \<Rightarrow> Inl Native_Exception
                  | Returns prev \<Rightarrow>
                      if truthy (void_p_result prev) then
                        (let d3 = d2\<lparr>wndproc := Some (py_wndproc_ptr e)\<rparr>;
                             c3 = c2 @ [WTSRegisterSessionNotification hwnd_int]
                         in
                         case register_result e of
                           Raises \<Rightarrow> Inl Native_Exception
                         | Returns ok \<Rightarrow>
                             if ok then Inr (d3\<lparr>session_events := True\<rparr>, c3)
                             else
                               (case rollback_result e of
                                  Raises \<Rightarrow> Inl Native_Exception
                                | Returns _ \<Rightarrow>
                                    Inr (d3\<lparr>wndproc := None, orig_wndproc := None,
                                             session_events := False\<rparr>,
                                         c3 @ [SetWindowLongPtrW hwnd_int
                                                 (c_void_p (orig_wndproc d3))])))
                      else
                        Inr (d2\<lparr>wndproc := None, orig_wndproc := None,
                                 session_events := False\<rparr>, c2))))"

record uninstall_env =
  unregister_result :: "bool native"    \<comment> \<open>what \<^verbatim>\<open>WTSUnRegisterSessionNotification\<close> does\<close>
  restore_result :: "nat native"        \<comment> \<open>what the restoring \<^verbatim>\<open>SetWindowLongPtrW\<close> does\<close>

text \<open>
  The body of the \<^verbatim>\<open>try\<close> of \<^verbatim>\<open>uninstall_session_notifications\<close>: the native calls it
  issues, or the exception that ends it (with the calls issued up to and including the
  one that raised).
\<close>

definition uninstall_try ::
  "uninstall_env \<Rightarrow> daemon \<Rightarrow> (exn \<times> native_call list) + native_call list" where
  "uninstall_try e d =
     (let unregister = (truthy (hwnd d) \<and> session_events d);
          c1 = (if unregister then [WTSUnRegisterSessionNotification (c_void_p (hwnd d))] else [])
      in
      if unregister \<and> unregister_result e = Raises then Inl (Native_Exception, c1)
      else
        (let restore = (truthy (hwnd d) \<and> truthy (orig_wndproc d) \<and> wndproc d \<noteq> None);
             c2 = c1 @ (if restore
                        then [SetWindowLongPtrW (c_void_p (hwnd d)) (c_void_p (orig_wndproc d))]
                        else [])
         in
         if restore \<and> restore_result e = Raises then Inl (Native_Exception, c2)
         else Inr c2))"

text \<open>
  \<^verbatim>\<open>uninstall_session_notifications\<close>: \<^verbatim>\<open>except Exception: pass\<close> swallows what the body
  raises, and \<^verbatim>\<open>finally\<close> clears the four fields.
\<close>

definition uninstall_session_notifications ::
  "bool \<Rightarrow> uninstall_env \<Rightarrow> daemon \<Rightarrow> exn + daemon \<times> native_call list" where
  "uninstall_session_notifications win32 e d =
     (if \<not> win32 then Inr (d, [])
      else
        (let calls = (case uninstall_try e d of Inl (x, c) \<Rightarrow> c | Inr c \<Rightarrow> c)
         in Inr (d\<lparr>session_events := False, wndproc := None, orig_wndproc := None,
                    hwnd := None\<rparr>, calls)))"

subsection \<open>Backup lock detection\<close>

text \<open>
  \<^verbatim>\<open>str.lower\<close>, on the characters a desktop name can share with \<^verbatim>\<open>"default"\<close>: the
  letters \<open>A\<close> to \<open>Z\<close> move to \<open>a\<close> to \<open>z\<close>.
\<close>

definition lower_char :: "char \<Rightarrow> char" where
  "lower_char c =
     (let n = (of_char c :: nat) in if 65 \<le> n \<and> n \<le> 90 then char_of (n + 32) else c)"

definition lower :: "string \<Rightarrow> string" where
  "lower s = map lower_char s"

record probe_env =
  open_input_desktop :: "int native"                      \<comment> \<open>the handle, \<open>0\<close> when the call fails\<close>
  get_user_object_information :: "(bool \<times> string) native"  \<comment> \<open>success flag and the name read\<close>
  close_desktop :: "unit native"
  get_last_input_info :: "(bool \<times> nat) native"           \<comment> \<open>success flag and \<^verbatim>\<open>dwTime\<close>\<close>
  get_tick :: "nat native"

text \<open>The \<^verbatim>\<open>except Exception\<close> branch of the probe: the idle-time heuristic.\<close>

definition idle_fallback :: "probe_env \<Rightarrow> exn + bool" where
  "idle_fallback e =
     (case get_last_input_info e of
        Raises \<Rightarrow> Inl Native_Exception
      | Returns (ok, dwTime) \<Rightarrow>
          if ok then
            (case get_tick e of
               Raises \<Rightarrow> Inl Native_Exception
             | Returns tick \<Rightarrow>
                 (let idle_ms = int tick - int dwTime;
                      threshold = (if DEBUG_MODE then 10000 else 60000)
                  in Inr (idle_ms \<ge> threshold)))
          else Inr False)"

text \<open>\<^verbatim>\<open>check_lock_state_fallback\<close>: \<open>True\<close> means locked.\<close>

definition check_lock_state_fallback :: "bool \<Rightarrow> probe_env \<Rightarrow> exn + bool" where
  "check_lock_state_fallback win32 e =
     (if \<not> win32 then Inr False
      else
        case open_input_desktop e of
          Raises \<Rightarrow> idle_fallback e
        | Returns hDesk \<Rightarrow>
            if hDesk = 0 then Inr True
            else
              (case get_user_object_information e of
                 Raises \<Rightarrow> idle_fallback e
               | Returns (ok, buf) \<Rightarrow>
                   (let name = (if ok then lower buf else []) in
                    case close_desktop e of
                      Raises \<Rightarrow> idle_fallback e
                    | Returns _ \<Rightarrow>
                        if name = ''default'' then Inr False
                        else if name \<in> set [''winlogon'', ''screensaver''] then Inr True
                        else Inr True)))"

subsection \<open>The timer thread\<close>

record tick_env =
  probe :: probe_env     \<comment> \<open>what the native calls of the probe do on this tick\<close>
  now :: real            \<comment> \<open>what \<^verbatim>\<open>time.time()\<close> reads on this tick\<close>

text \<open>One iteration of the loop of \<^verbatim>\<open>run_timer\<close>, after the sleep.\<close>

definition run_timer_tick :: "bool \<Rightarrow> tick_env \<Rightarrow> daemon \<Rightarrow> exn + daemon" where
  "run_timer_tick win32 e d =
     (if session_events d then
        (let d1 = (if \<not> is_locked d then
                     (if fatigue d < LIMIT_DEATH then d\<lparr>fatigue := fatigue d + 1\<rparr> else d)
                   else d)
         in Inr (update_icon d1))
      else
        case check_lock_state_fallback win32 (probe e) of
          Inl x \<Rightarrow> Inl x
        | Inr currently_locked \<Rightarrow>
            (let d2 =
               (if currently_locked then
                  (if \<not> is_locked d then d\<lparr>is_locked := True, lock_start_time := now e\<rparr>
                   else d)
                else
                  (let d1 =
                     (if is_locked d then
                        (let duration = (if lock_start_time d \<noteq> 0
                                         then now e - lock_start_time d else 0)
                         in handle_unlock_heal duration
                              (d\<lparr>is_locked := False, lock_start_time := 0\<rparr>))
                      else d)
                   in if fatigue d1 < LIMIT_DEATH then d1\<lparr>fatigue := fatigue d1 + 1\<rparr> else d1))
             in Inr (update_icon (clamp_fatigue d2))))"


subsection \<open>The daemon as a transition system\<close>

text \<open>
  The three threads change the daemon through these operations only. A run of the
  process is modelled as a sequence of them, each executed as a whole.
\<close>

datatype event =
    Tick tick_env
  | Message nat nat real
  | Manual_Reset
  | Install install_env
  | Uninstall uninstall_env

fun step :: "bool \<Rightarrow> event \<Rightarrow> daemon \<Rightarrow> exn + daemon" where
  "step win32 (Tick e) d = run_timer_tick win32 e d"
| "step win32 (Message msg wParam t) d = Inr (py_wndproc msg wParam t d)"
| "step win32 Manual_Reset d = Inr (resurrect d)"
| "step win32 (Install e) d = map_sum id fst (install_session_notifications win32 e d)"
| "step win32 (Uninstall e) d = map_sum id fst (uninstall_session_notifications win32 e d)"

fun run :: "bool \<Rightarrow> event list \<Rightarrow> daemon \<Rightarrow> exn + daemon" where
  "run win32 [] d = Inr d"
| "run win32 (ev # evs) d =
     (case step win32 ev d of Inl x \<Rightarrow> Inl x | Inr d' \<Rightarrow> run win32 evs d')"

text \<open>The range of the fatigue score.\<close>

definition fatigue_ok :: "daemon \<Rightarrow> bool" where
  "fatigue_ok d = (0 \<le> fatigue d \<and> fatigue d \<le> LIMIT_DEATH)"

text \<open>The four fields that hold the state of the hook.\<close>

definition hook_fields :: "daemon \<Rightarrow> bool \<times> nat option \<times> nat option \<times> nat option" where
  "hook_fields d = (session_events d, wndproc d, orig_wndproc d, hwnd d)"

text \<open>The order of the fatigue states, for monotonicity.\<close>

fun state_rank :: "fatigue_state \<Rightarrow> nat" where
  "state_rank Round = 0"
| "state_rank Slouch = 1"
| "state_rank Melt = 2"
| "state_rank Flat = 3"
| "state_rank Tombstone = 4"

subsection \<open>Sample inputs\<close>

text \<open>
  A daemon whose score is \<open>s\<close> and whose displayed state is the one of that score,
  otherwise as at process start.
\<close>

definition at_score :: "int \<Rightarrow> daemon" where
  "at_score s = update_icon (init\<lparr>fatigue := s\<rparr>)"

text \<open>
  A probe whose desktop calls all succeed and read the desktop name \<open>name\<close>; the
  last-input read, were it reached, would report failure.
\<close>

definition probe_reads :: "string \<Rightarrow> probe_env" where
  "probe_reads name =
     \<lparr> open_input_desktop = Returns 1,
       get_user_object_information = Returns (True, name),
       close_desktop = Returns (),
       get_last_input_info = Returns (False, 0),
       get_tick = Returns 0 \<rparr>"

definition tick_at :: "probe_env \<Rightarrow> real \<Rightarrow> tick_env" where
  "tick_at p t = \<lparr> probe = p, now = t \<rparr>"

text \<open>Probes on which one native call fails.\<close>

definition probe_open_fails :: probe_env where
  "probe_open_fails = (probe_reads ''Default'')\<lparr>open_input_desktop := Returns 0\<rparr>"

definition probe_name_unreadable :: probe_env where
  "probe_name_unreadable =
     (probe_reads ''Default'')\<lparr>get_user_object_information := Returns (False, [])\<rparr>"

definition probe_open_raises :: probe_env where
  "probe_open_raises = (probe_reads ''Default'')\<lparr>open_input_desktop := Raises\<rparr>"

definition probe_idle :: "nat \<Rightarrow> nat \<Rightarrow> probe_env" where
  "probe_idle dwTime tick =
     probe_open_raises\<lparr>get_last_input_info := Returns (True, dwTime), get_tick := Returns tick\<rparr>"

text \<open>
  The \<^verbatim>\<open>try\<close> body of the probe ends in an exception: a call it makes raises.
\<close>

definition desktop_probe_raises :: "probe_env \<Rightarrow> bool" where
  "desktop_probe_raises e =
     (case open_input_desktop e of
        Raises \<Rightarrow> True
      | Returns hDesk \<Rightarrow>
          hDesk \<noteq> 0 \<and>
          (case get_user_object_information e of
             Raises \<Rightarrow> True
           | Returns _ \<Rightarrow> close_desktop e = Raises))"

text \<open>An installation on which every native call succeeds, and a removal likewise.\<close>

definition install_ok :: install_env where
  "install_ok =
     \<lparr> winfo_id = Returns 4242, get_window_long = Returns 1000, swap_result = Returns 1000,
       register_result = Returns True, rollback_result = Returns 2000,
       py_wndproc_ptr = 2000 \<rparr>"

definition uninstall_ok :: uninstall_env where
  "uninstall_ok = \<lparr> unregister_result = Returns True, restore_result = Returns 2000 \<rparr>"

subsection \<open>Basic facts\<close>

lemmas settings =
  DEBUG_MODE_def LIMIT_ROUND_def LIMIT_SLOUCH_def LIMIT_MELT_def LIMIT_FLAT_def
  LIMIT_DEATH_def MIN_BREAK_TIME_def FULL_RESET_TIME_def

lemma fatigue_safe_notify [simp]: "fatigue (safe_notify n d) = fatigue d"
  by (simp add: safe_notify_def)

lemma fatigue_update_icon [simp]: "fatigue (update_icon d) = fatigue d"
  by (simp add: update_icon_def Let_def)

lemma fatigue_clamp_fatigue [simp]:
  "fatigue (clamp_fatigue d) = max 0 (min (fatigue d) LIMIT_DEATH)"
  by (simp add: clamp_fatigue_def)

lemma update_icon_fields [simp]:
  "is_locked (update_icon d) = is_locked d"
  "lock_start_time (update_icon d) = lock_start_time d"
  "session_events (update_icon d) = session_events d"
  "running (update_icon d) = running d"
  "wndproc (update_icon d) = wndproc d"
  "orig_wndproc (update_icon d) = orig_wndproc d"
  "hwnd (update_icon d) = hwnd d"
  by (simp_all add: update_icon_def safe_notify_def Let_def)

lemma clamp_fatigue_fields [simp]:
  "is_locked (clamp_fatigue d) = is_locked d"
  "lock_start_time (clamp_fatigue d) = lock_start_time d"
  "session_events (clamp_fatigue d) = session_events d"
  "running (clamp_fatigue d) = running d"
  "wndproc (clamp_fatigue d) = wndproc d"
  "orig_wndproc (clamp_fatigue d) = orig_wndproc d"
  "hwnd (clamp_fatigue d) = hwnd d"
  by (simp_all add: clamp_fatigue_def)

lemma handle_unlock_heal_fields [simp]:
  "is_locked (handle_unlock_heal t d) = is_locked d"
  "lock_start_time (handle_unlock_heal t d) = lock_start_time d"
  "session_events (handle_unlock_heal t d) = session_events d"
  "running (handle_unlock_heal t d) = running d"
  "wndproc (handle_unlock_heal t d) = wndproc d"
  "orig_wndproc (handle_unlock_heal t d) = orig_wndproc d"
  "hwnd (handle_unlock_heal t d) = hwnd d"
  by (simp_all add: handle_unlock_heal_def safe_notify_def Let_def split: heal_result.split)

text \<open>The score after an unlock, as a function of the score before and the minutes away.\<close>

lemma fatigue_handle_unlock_heal:
  "fatigue (handle_unlock_heal t d) =
     max 0 (min (if fatigue d < LIMIT_DEATH then
                   (case calculate_healing (minutes_of t) of
                      FULL_RESET \<Rightarrow> 0
                    | Amount h \<Rightarrow> if h > 0 then max 0 (fatigue d - h) else fatigue d)
                 else fatigue d) LIMIT_DEATH)"
  by (simp add: handle_unlock_heal_def Let_def split: heal_result.split)

lemma fatigue_handle_unlock_heal_upd [simp]:
  "fatigue (handle_unlock_heal t (d\<lparr>is_locked := b, lock_start_time := x\<rparr>)) =
   fatigue (handle_unlock_heal t d)"
  by (simp add: fatigue_handle_unlock_heal split: heal_result.split)

text \<open>Every whole number of minutes is the length of some break.\<close>

lemma minutes_of_of_int: "minutes_of (of_int (60 * m)) = m"
  by (simp add: minutes_of_def py_int_def DEBUG_MODE_def)

lemma fatigue_ok_handle_unlock_heal: "fatigue_ok (handle_unlock_heal t d)"
  by (simp add: fatigue_ok_def fatigue_handle_unlock_heal settings)

lemma fatigue_resurrect: "fatigue (resurrect d) = 0"
  by (simp add: resurrect_def settings)

lemma fatigue_ok_resurrect: "fatigue_ok (resurrect d)"
  by (simp add: fatigue_ok_def fatigue_resurrect settings)

lemma fatigue_py_wndproc:
  "fatigue (py_wndproc m p t d) =
     (if m = WM_WTSSESSION_CHANGE \<and> p = WTS_SESSION_UNLOCK
      then fatigue (handle_unlock_heal
             (if lock_start_time d \<noteq> 0 then t - lock_start_time d else 0) d)
      else fatigue d)"
  by (simp add: py_wndproc_def Let_def WTS_SESSION_LOCK_def WTS_SESSION_UNLOCK_def)

lemma fatigue_ok_py_wndproc: "fatigue_ok d \<Longrightarrow> fatigue_ok (py_wndproc m p t d)"
  by (simp add: fatigue_ok_def fatigue_py_wndproc fatigue_handle_unlock_heal settings)

lemma fatigue_install:
  "install_session_notifications w e d = Inr (d', c) \<Longrightarrow> fatigue d' = fatigue d"
  by (auto simp: install_session_notifications_def Let_def split: if_splits native.splits)

lemma fatigue_uninstall:
  "uninstall_session_notifications w e d = Inr (d', c) \<Longrightarrow> fatigue d' = fatigue d"
  by (auto simp: uninstall_session_notifications_def Let_def split: if_splits)

subsection \<open>What one tick does\<close>

lemma tick_events:
  "session_events d \<Longrightarrow>
   run_timer_tick w e d =
     Inr (update_icon (if \<not> is_locked d \<and> fatigue d < LIMIT_DEATH
                       then d\<lparr>fatigue := fatigue d + 1\<rparr> else d))"
  by (simp add: run_timer_tick_def Let_def)

lemma tick_polling_probe:
  "\<not> session_events d \<Longrightarrow> run_timer_tick w e d = Inr d' \<Longrightarrow>
   \<exists>b. check_lock_state_fallback w (probe e) = Inr b"
  by (auto simp: run_timer_tick_def split: sum.splits)

lemma tick_polling_locked:
  assumes "\<not> session_events d" "check_lock_state_fallback w (probe e) = Inr True"
  shows "\<exists>d'. run_timer_tick w e d = Inr d' \<and> is_locked d'
           \<and> fatigue d' = max 0 (min (fatigue d) 80)
           \<and> lock_start_time d' = (if is_locked d then lock_start_time d else now e)"
  using assms by (cases "is_locked d") (simp_all add: run_timer_tick_def Let_def settings)

lemma tick_polling_unlocked:
  assumes "\<not> session_events d" "check_lock_state_fallback w (probe e) = Inr False"
    and "h = (if is_locked d
              then fatigue (handle_unlock_heal
                     (if lock_start_time d \<noteq> 0 then now e - lock_start_time d else 0) d)
              else fatigue d)"
  shows "\<exists>d'. run_timer_tick w e d = Inr d' \<and> \<not> is_locked d'
           \<and> fatigue d' = max 0 (min (if h < 80 then h + 1 else h) 80)
           \<and> lock_start_time d' = (if is_locked d then 0 else lock_start_time d)"
  using assms by (cases "is_locked d") (simp_all add: run_timer_tick_def Let_def settings)

lemma accrual_tick:
  assumes ok: "fatigue_ok d" and tick: "run_timer_tick w e d = Inr d'"
    and base: "base = (if \<not> session_events d \<and> is_locked d \<and> \<not> is_locked d'
                 then fatigue (handle_unlock_heal
                        (if lock_start_time d \<noteq> 0 then now e - lock_start_time d else 0) d)
                 else fatigue d)"
  shows "(fatigue d' = base + 1 \<longleftrightarrow> \<not> is_locked d' \<and> base < 80) \<and>
         (fatigue d' \<noteq> base + 1 \<longrightarrow> fatigue d' = base) \<and>
         (session_events d \<longrightarrow> is_locked d' = is_locked d) \<and>
         (is_locked d' \<longrightarrow> fatigue d' = fatigue d)"
proof (cases "session_events d")
  case True
  with tick have "d' = update_icon (if \<not> is_locked d \<and> fatigue d < LIMIT_DEATH
                       then d\<lparr>fatigue := fatigue d + 1\<rparr> else d)"
    by (simp add: tick_events)
  with True base show ?thesis by (simp add: settings)
next
  case False
  from tick_polling_probe[OF False tick]
  obtain b where b: "check_lock_state_fallback w (probe e) = Inr b" ..
  from ok have r: "0 \<le> fatigue d" "fatigue d \<le> 80" by (simp_all add: fatigue_ok_def settings)
  show ?thesis
  proof (cases b)
    case True
    from b True have "check_lock_state_fallback w (probe e) = Inr True" by simp
    from tick_polling_locked[OF False this] tick
    have "is_locked d'" "fatigue d' = max 0 (min (fatigue d) 80)" by auto
    with r base show ?thesis using False by simp
  next
    case nb: False
    define h where "h = (if is_locked d
              then fatigue (handle_unlock_heal
                     (if lock_start_time d \<noteq> 0 then now e - lock_start_time d else 0) d)
              else fatigue d)"
    from b nb have "check_lock_state_fallback w (probe e) = Inr False" by simp
    from tick_polling_unlocked[OF False this h_def] tick
    have d': "\<not> is_locked d'" "fatigue d' = max 0 (min (if h < 80 then h + 1 else h) 80)"
      by auto
    have hr: "0 \<le> h" "h \<le> 80"
      using r by (simp_all add: h_def fatigue_handle_unlock_heal settings)
    have "base = h" using base d'(1) False by (simp add: h_def)
    with d' hr show ?thesis using False by auto
  qed
qed

lemma fatigue_ok_tick:
  assumes "fatigue_ok d" "run_timer_tick w e d = Inr d'"
  shows "fatigue_ok d'"
proof -
  define base where "base = (if \<not> session_events d \<and> is_locked d \<and> \<not> is_locked d'
                 then fatigue (handle_unlock_heal
                        (if lock_start_time d \<noteq> 0 then now e - lock_start_time d else 0) d)
                 else fatigue d)"
  have "0 \<le> base \<and> base \<le> 80"
    using assms(1) by (simp add: base_def fatigue_ok_def fatigue_handle_unlock_heal settings)
  with accrual_tick[OF assms base_def] show ?thesis
    by (auto simp: fatigue_ok_def settings)
qed



subsection \<open>The range of the score along a run\<close>

lemma fatigue_ok_step:
  assumes "fatigue_ok d" "step w ev d = Inr d'"
  shows "fatigue_ok d'"
proof (cases ev)
  case (Tick e)
  with assms show ?thesis by (simp add: fatigue_ok_tick)
next
  case (Message m p t)
  with assms show ?thesis by (auto simp: fatigue_ok_py_wndproc)
next
  case Manual_Reset
  with assms show ?thesis by (auto simp: fatigue_ok_resurrect)
next
  case (Install e)
  with assms show ?thesis
    by (cases "install_session_notifications w e d")
       (auto simp: fatigue_ok_def dest: fatigue_install)
next
  case (Uninstall e)
  with assms show ?thesis
    by (cases "uninstall_session_notifications w e d")
       (auto simp: fatigue_ok_def dest: fatigue_uninstall)
qed

lemma fatigue_ok_run:
  "fatigue_ok d \<Longrightarrow> run w evs d = Inr d' \<Longrightarrow> fatigue_ok d'"
proof (induction evs arbitrary: d)
  case Nil
  then show ?case by simp
next
  case (Cons ev evs)
  then show ?case
    by (cases "step w ev d") (auto dest: fatigue_ok_step)
qed

lemma capped_step:
  assumes cap: "fatigue d = 80" and ev: "ev \<noteq> Manual_Reset" and st: "step w ev d = Inr d'"
  shows "fatigue d' = 80"
proof (cases ev)
  case (Tick e)
  define base where "base = (if \<not> session_events d \<and> is_locked d \<and> \<not> is_locked d'
                 then fatigue (handle_unlock_heal
                        (if lock_start_time d \<noteq> 0 then now e - lock_start_time d else 0) d)
                 else fatigue d)"
  have "base = 80" using cap by (simp add: base_def fatigue_handle_unlock_heal settings)
  moreover have "fatigue_ok d" using cap by (simp add: fatigue_ok_def settings)
  moreover have "run_timer_tick w e d = Inr d'" using st Tick by simp
  ultimately show ?thesis using accrual_tick[of d w e d' base] base_def by auto
next
  case (Message m p t)
  with st cap show ?thesis
    by (auto simp: fatigue_py_wndproc fatigue_handle_unlock_heal settings)
next
  case Manual_Reset
  with ev show ?thesis by simp
next
  case (Install e)
  with st cap show ?thesis
    by (cases "install_session_notifications w e d") (auto dest: fatigue_install)
next
  case (Uninstall e)
  with st cap show ?thesis
    by (cases "uninstall_session_notifications w e d") (auto dest: fatigue_uninstall)
qed

subsection \<open>The sample inputs\<close>

lemma at_score_unfold:
  "at_score s =
     init\<lparr>fatigue := s,
          state := (if s < 45 then Round else if s < 60 then Slouch
                    else if s < 70 then Melt else if s < 80 then Flat else Tombstone)\<rparr>"
  by (simp add: at_score_def update_icon_def get_current_state_def init_def Let_def settings)


lemma lower_Default: "lower ''Default'' = ''default''"
  by code_simp

lemma lower_Winlogon: "lower ''Winlogon'' = ''winlogon''"
  by code_simp

lemma probe_reads_Default:
  "check_lock_state_fallback True (probe_reads ''Default'') = Inr False"
  by (simp add: check_lock_state_fallback_def probe_reads_def lower_Default)

lemma probe_reads_Winlogon:
  "check_lock_state_fallback True (probe_reads ''Winlogon'') = Inr True"
  by (simp add: check_lock_state_fallback_def probe_reads_def lower_Winlogon)

section \<open>The healing function\<close>

text \<open>
  C1 (as amended). With \<open>m\<close> the whole minutes of the break: for every prior score
  \<open>s\<close> with \<open>0 \<le> s < 80\<close>, an unlock leaves the score unchanged when \<open>m < 2\<close>, sets it
  to \<open>0\<close> when \<open>m \<ge> 15\<close>, makes it \<open>max 0 (s - 2 * m)\<close> when \<open>2 \<le> m < 5\<close> and
  \<open>max 0 (s - 4 * m)\<close> when \<open>5 \<le> m < 15\<close>. The bound \<open>s < 80\<close> is the guard of
  \<^verbatim>\<open>handle_unlock_heal\<close>: at the cap nothing is healed.
\<close>

theorem heal_piecewise:
  assumes "0 \<le> fatigue d" and "fatigue d < 80"
  shows "fatigue (handle_unlock_heal t d) =
           (if minutes_of t < 2 then fatigue d
            else if minutes_of t \<ge> 15 then 0
            else if minutes_of t < 5 then max 0 (fatigue d - 2 * minutes_of t)
            else max 0 (fatigue d - 4 * minutes_of t))"
  using assms
  by (simp add: fatigue_handle_unlock_heal calculate_healing_def settings mult.commute)

theorem heal_piecewise_witness:
  "0 \<le> fatigue (at_score 50) \<and> fatigue (at_score 50) < 80 \<and>
   fatigue (handle_unlock_heal 60 (at_score 50)) = 50 \<and>
   fatigue (handle_unlock_heal 180 (at_score 50)) = 44 \<and>
   fatigue (handle_unlock_heal 600 (at_score 50)) = 10 \<and>
   fatigue (handle_unlock_heal 1200 (at_score 50)) = 0"
  using heal_piecewise [of "at_score 50" 60] heal_piecewise [of "at_score 50" 180]
    heal_piecewise [of "at_score 50" 600] heal_piecewise [of "at_score 50" 1200]
  by (simp add: at_score_unfold init_def minutes_of_def py_int_def DEBUG_MODE_def)

text \<open>
  C1 as stated fails at the cap: a break of 20 minutes does not reset a score of 80,
  and a break of 3 minutes takes nothing from it.
\<close>

theorem heal_at_cap_counterexample:
  "minutes_of 1200 = 20 \<and> fatigue (handle_unlock_heal 1200 (at_score 80)) = 80 \<and>
   minutes_of 180 = 3 \<and> fatigue (handle_unlock_heal 180 (at_score 80)) = 80"
  by (simp add: fatigue_handle_unlock_heal at_score_unfold init_def minutes_of_def py_int_def
        settings)

section \<open>No healing at the cap\<close>

text \<open>
  C2. When the score is at the cap (80), an unlock after a break of any length leaves
  it at 80; so does every other operation on the daemon (a tick in either mode, a
  window message, installing or removing the hook) except the manual reset, which
  sets it to 0.
\<close>

theorem capped_score_only_manual_reset:
  assumes "fatigue d = 80"
  shows "fatigue (handle_unlock_heal t d) = 80 \<and>
         (ev \<noteq> Manual_Reset \<and> step w ev d = Inr d' \<longrightarrow> fatigue d' = 80) \<and>
         fatigue (resurrect d) = 0"
  using assms capped_step [of d ev w d']
  by (simp add: fatigue_handle_unlock_heal fatigue_resurrect settings)

theorem capped_score_only_manual_reset_witness:
  "fatigue (at_score 80\<lparr>is_locked := True, lock_start_time := 100\<rparr>) = 80 \<and>
   Message WM_WTSSESSION_CHANGE WTS_SESSION_UNLOCK 1300 \<noteq> Manual_Reset \<and>
   step True (Message WM_WTSSESSION_CHANGE WTS_SESSION_UNLOCK 1300)
     (at_score 80\<lparr>is_locked := True, lock_start_time := 100\<rparr>) =
     Inr (py_wndproc WM_WTSSESSION_CHANGE WTS_SESSION_UNLOCK 1300
           (at_score 80\<lparr>is_locked := True, lock_start_time := 100\<rparr>)) \<and>
   fatigue (handle_unlock_heal 1200 (at_score 80\<lparr>is_locked := True, lock_start_time := 100\<rparr>)) = 80 \<and>
   fatigue (py_wndproc WM_WTSSESSION_CHANGE WTS_SESSION_UNLOCK 1300
           (at_score 80\<lparr>is_locked := True, lock_start_time := 100\<rparr>)) = 80 \<and>
   fatigue (resurrect (at_score 80\<lparr>is_locked := True, lock_start_time := 100\<rparr>)) = 0"
  using capped_score_only_manual_reset
    [of "at_score 80\<lparr>is_locked := True, lock_start_time := 100\<rparr>" 1200
        "Message WM_WTSSESSION_CHANGE WTS_SESSION_UNLOCK 1300" True
        "py_wndproc WM_WTSSESSION_CHANGE WTS_SESSION_UNLOCK 1300
           (at_score 80\<lparr>is_locked := True, lock_start_time := 100\<rparr>)"]
  by (simp add: at_score_unfold init_def)

section \<open>The range of the score\<close>

text \<open>
  C3. The score is 0 at process start. From a score in \<open>[0, 80]\<close>, a tick of the timer
  in either mode leaves it in \<open>[0, 80]\<close>; an unlock-heal and the manual reset leave it
  in \<open>[0, 80]\<close> from any score; and so the score is in \<open>[0, 80]\<close> after every run of
  operations from the initial daemon.
\<close>

theorem fatigue_in_range:
  "fatigue init = 0 \<and>
   (0 \<le> fatigue d \<and> fatigue d \<le> 80 \<and> run_timer_tick w e d = Inr d' \<longrightarrow>
      0 \<le> fatigue d' \<and> fatigue d' \<le> 80) \<and>
   (0 \<le> fatigue (handle_unlock_heal t d) \<and> fatigue (handle_unlock_heal t d) \<le> 80) \<and>
   (0 \<le> fatigue (resurrect d) \<and> fatigue (resurrect d) \<le> 80) \<and>
   (run w evs init = Inr d'' \<longrightarrow> 0 \<le> fatigue d'' \<and> fatigue d'' \<le> 80)"
proof -
  have "fatigue_ok init" by (simp add: fatigue_ok_def init_def settings)
  then have "run w evs init = Inr d'' \<Longrightarrow> fatigue_ok d''"
    by (rule fatigue_ok_run)
  then show ?thesis
    using fatigue_ok_tick [of d w e d'] fatigue_ok_handle_unlock_heal [of t d]
      fatigue_ok_resurrect [of d]
    by (simp add: fatigue_ok_def init_def settings)
qed

theorem fatigue_in_range_witness:
  "0 \<le> fatigue (at_score 79\<lparr>session_events := True\<rparr>) \<and>
   fatigue (at_score 79\<lparr>session_events := True\<rparr>) \<le> 80 \<and>
   run_timer_tick True (tick_at (probe_reads ''Default'') 60)
       (at_score 79\<lparr>session_events := True\<rparr>) =
     Inr (at_score 80\<lparr>session_events := True\<rparr>) \<and>
   0 \<le> fatigue (at_score 80\<lparr>session_events := True\<rparr>) \<and>
   fatigue (at_score 80\<lparr>session_events := True\<rparr>) \<le> 80 \<and>
   run True [Tick (tick_at (probe_reads ''Default'') 60),
             Tick (tick_at (probe_reads ''Default'') 120)] init = Inr (at_score 2) \<and>
   0 \<le> fatigue (at_score 2) \<and> fatigue (at_score 2) \<le> 80"
proof -
  have h1: "0 \<le> fatigue (at_score 79\<lparr>session_events := True\<rparr>) \<and>
            fatigue (at_score 79\<lparr>session_events := True\<rparr>) \<le> 80"
    by (simp add: at_score_unfold)
  have h2: "run_timer_tick True (tick_at (probe_reads ''Default'') 60)
              (at_score 79\<lparr>session_events := True\<rparr>) =
            Inr (at_score 80\<lparr>session_events := True\<rparr>)"
    by (simp add: tick_events at_score_unfold init_def update_icon_def get_current_state_def
          settings)
  have h3: "run True [Tick (tick_at (probe_reads ''Default'') 60),
                      Tick (tick_at (probe_reads ''Default'') 120)] init = Inr (at_score 2)"
    by (simp add: run_timer_tick_def probe_reads_Default tick_at_def at_score_unfold init_def
          clamp_fatigue_def update_icon_def get_current_state_def settings)
  from h1 h2 h3
    fatigue_in_range [of "at_score 79\<lparr>session_events := True\<rparr>" True
      "tick_at (probe_reads ''Default'') 60"
      "at_score 80\<lparr>session_events := True\<rparr>" 0
      "[Tick (tick_at (probe_reads ''Default'') 60),
        Tick (tick_at (probe_reads ''Default'') 120)]" "at_score 2"]
  show ?thesis by blast
qed

section \<open>Accrual\<close>




section \<open>The fatigue state\<close>

text \<open>
  C6. The state is a function of the score alone: Round iff the score is below 45,
  Slouch iff it is in \<open>[45, 60)\<close>, Melt iff in \<open>[60, 70)\<close>, Flat iff in \<open>[70, 80)\<close>,
  Tombstone iff it is at least 80; equal scores give equal states, and a larger score
  never gives an earlier state.
\<close>

theorem state_of_score:
  "(get_current_state d = Round \<longleftrightarrow> fatigue d < 45) \<and>
   (get_current_state d = Slouch \<longleftrightarrow> 45 \<le> fatigue d \<and> fatigue d < 60) \<and>
   (get_current_state d = Melt \<longleftrightarrow> 60 \<le> fatigue d \<and> fatigue d < 70) \<and>
   (get_current_state d = Flat \<longleftrightarrow> 70 \<le> fatigue d \<and> fatigue d < 80) \<and>
   (get_current_state d = Tombstone \<longleftrightarrow> 80 \<le> fatigue d) \<and>
   (fatigue d = fatigue d' \<longrightarrow> get_current_state d = get_current_state d') \<and>
   (fatigue d \<le> fatigue d' \<longrightarrow>
      state_rank (get_current_state d) \<le> state_rank (get_current_state d'))"
  by (simp add: get_current_state_def settings)

theorem state_of_score_witness:
  "fatigue (at_score 44) \<le> fatigue (at_score 45) \<and>
   fatigue (at_score 44\<lparr>is_locked := True\<rparr>) = fatigue (at_score 44) \<and>
   get_current_state (at_score 44) = Round \<and>
   get_current_state (at_score 45) = Slouch \<and>
   get_current_state (at_score 44\<lparr>is_locked := True\<rparr>) = get_current_state (at_score 44) \<and>
   state_rank (get_current_state (at_score 44)) \<le> state_rank (get_current_state (at_score 45))"
proof -
  have h: "fatigue (at_score 44) = 44 \<and> fatigue (at_score 45) = 45 \<and>
           fatigue (at_score 44\<lparr>is_locked := True\<rparr>) = 44"
    by (simp add: at_score_unfold)
  from h state_of_score [of "at_score 44" "at_score 45"]
    state_of_score [of "at_score 45" "at_score 45"]
    state_of_score [of "at_score 44\<lparr>is_locked := True\<rparr>" "at_score 44"]
  show ?thesis by simp
qed

section \<open>An unlock never adds fatigue\<close>

text \<open>
  C10. For every break duration, positive, zero or negative, and every starting score
  in \<open>[0, 80]\<close>, the score after \<^verbatim>\<open>handle_unlock_heal\<close> is at most the score before it.
\<close>

theorem unlock_heal_never_increases:
  "0 \<le> fatigue d \<Longrightarrow> fatigue d \<le> 80 \<Longrightarrow> fatigue (handle_unlock_heal t d) \<le> fatigue d"
  by (simp add: fatigue_handle_unlock_heal calculate_healing_def settings)

theorem unlock_heal_never_increases_witness:
  "0 \<le> fatigue (at_score 30) \<and> fatigue (at_score 30) \<le> 80 \<and>
   fatigue (handle_unlock_heal (- 120) (at_score 30)) \<le> fatigue (at_score 30) \<and>
   fatigue (handle_unlock_heal 0 (at_score 30)) \<le> fatigue (at_score 30) \<and>
   fatigue (handle_unlock_heal 240 (at_score 30)) \<le> fatigue (at_score 30)"
proof -
  have h: "0 \<le> fatigue (at_score 30)" "fatigue (at_score 30) \<le> 80"
    by (simp_all add: at_score_unfold)
  from h unlock_heal_never_increases [OF h, of "- 120"]
    unlock_heal_never_increases [OF h, of 0] unlock_heal_never_increases [OF h, of 240]
  show ?thesis by blast
qed

section \<open>The polling probe when a native call fails\<close>

text \<open>
  C5 as stated fails: when opening the input desktop fails (a null handle), the probe
  answers locked, and a tick of an unlocked session records a lock.
\<close>

theorem probe_open_fails_counterexample:
  "open_input_desktop probe_open_fails = Returns 0 \<and>
   check_lock_state_fallback True probe_open_fails = Inr True \<and>
   \<not> session_events init \<and> \<not> is_locked init \<and>
   run_timer_tick True (tick_at probe_open_fails 60) init =
     Inr (init\<lparr>is_locked := True, lock_start_time := 60\<rparr>)"
  by (simp add: probe_open_fails_def probe_reads_def check_lock_state_fallback_def
        run_timer_tick_def tick_at_def init_def clamp_fatigue_def update_icon_def
        get_current_state_def settings)

text \<open>
  C5 (as amended). On Windows: a desktop open that returns a null handle, and a name
  read that reports failure, make the probe answer locked. When a call of the desktop
  probe raises, the probe answers by the idle heuristic: unlocked if the last-input read
  reports failure, and otherwise locked exactly when the idle time is at least 60000 ms.
  When no call of the desktop probe raises, the probe returns an answer. Elsewhere the
  probe answers unlocked. And a polling tick of an unlocked session on which the probe
  answers unlocked returns, leaves the session unlocked and records no lock start.
\<close>

theorem probe_failure_semantics:
  "(open_input_desktop e = Returns 0 \<longrightarrow> check_lock_state_fallback True e = Inr True) \<and>
   (open_input_desktop e = Returns hDesk \<and> hDesk \<noteq> 0 \<and>
    get_user_object_information e = Returns (False, buf) \<and> close_desktop e = Returns () \<longrightarrow>
      check_lock_state_fallback True e = Inr True) \<and>
   (desktop_probe_raises e \<and> get_last_input_info e = Returns (False, dwTime) \<longrightarrow>
      check_lock_state_fallback True e = Inr False) \<and>
   (desktop_probe_raises e \<and> get_last_input_info e = Returns (True, dwTime) \<and>
    get_tick e = Returns tick \<longrightarrow>
      check_lock_state_fallback True e = Inr (int tick - int dwTime \<ge> 60000)) \<and>
   (\<not> desktop_probe_raises e \<longrightarrow> (\<exists>b. check_lock_state_fallback True e = Inr b)) \<and>
   check_lock_state_fallback False e = Inr False \<and>
   (\<not> session_events d \<and> \<not> is_locked d \<and>
    check_lock_state_fallback w (probe te) = Inr False \<longrightarrow>
      (\<exists>d'. run_timer_tick w te d = Inr d' \<and> \<not> is_locked d' \<and>
            lock_start_time d' = lock_start_time d))"
proof -
  have 1: "open_input_desktop e = Returns 0 \<Longrightarrow> check_lock_state_fallback True e = Inr True"
    by (simp add: check_lock_state_fallback_def)
  have 2: "open_input_desktop e = Returns hDesk \<and> hDesk \<noteq> 0 \<and>
      get_user_object_information e = Returns (False, buf) \<and> close_desktop e = Returns () \<Longrightarrow>
      check_lock_state_fallback True e = Inr True"
    by (simp add: check_lock_state_fallback_def)
  have 3: "desktop_probe_raises e \<Longrightarrow> check_lock_state_fallback True e = idle_fallback e"
    by (auto simp: desktop_probe_raises_def check_lock_state_fallback_def Let_def
          split: native.splits)
  have 4: "get_last_input_info e = Returns (False, dwTime) \<Longrightarrow> idle_fallback e = Inr False"
    by (simp add: idle_fallback_def)
  have 5: "get_last_input_info e = Returns (True, dwTime) \<and> get_tick e = Returns tick \<Longrightarrow>
      idle_fallback e = Inr (int tick - int dwTime \<ge> 60000)"
    by (simp add: idle_fallback_def settings)
  have 6: "\<not> desktop_probe_raises e \<Longrightarrow> \<exists>b. check_lock_state_fallback True e = Inr b"
    by (auto simp: desktop_probe_raises_def check_lock_state_fallback_def Let_def
          split: native.splits)
  have 7: "check_lock_state_fallback False e = Inr False"
    by (simp add: check_lock_state_fallback_def)
  have 8: "\<not> session_events d \<and> \<not> is_locked d \<and>
      check_lock_state_fallback w (probe te) = Inr False \<Longrightarrow>
      \<exists>d'. run_timer_tick w te d = Inr d' \<and> \<not> is_locked d' \<and>
            lock_start_time d' = lock_start_time d"
    using tick_polling_unlocked [of d w te "fatigue d"] by auto
  from 1 2 3 4 5 6 7 8 show ?thesis by presburger
qed

theorem probe_failure_semantics_witness:
  "open_input_desktop probe_open_fails = Returns 0 \<and>
   check_lock_state_fallback True probe_open_fails = Inr True \<and>
   get_user_object_information probe_name_unreadable = Returns (False, []) \<and>
   check_lock_state_fallback True probe_name_unreadable = Inr True \<and>
   desktop_probe_raises probe_open_raises \<and>
   get_last_input_info probe_open_raises = Returns (False, 0) \<and>
   check_lock_state_fallback True probe_open_raises = Inr False \<and>
   desktop_probe_raises (probe_idle 1000 70000) \<and>
   check_lock_state_fallback True (probe_idle 1000 70000) = Inr True \<and>
   \<not> desktop_probe_raises (probe_reads ''Default'') \<and>
   (\<exists>b. check_lock_state_fallback True (probe_reads ''Default'') = Inr b) \<and>
   \<not> session_events init \<and> \<not> is_locked init \<and>
   (\<exists>d'. run_timer_tick True (tick_at probe_open_raises 60) init = Inr d' \<and>
         \<not> is_locked d' \<and> lock_start_time d' = lock_start_time init)"
proof -
  have h1: "open_input_desktop probe_open_fails = Returns 0"
    by (simp add: probe_open_fails_def)
  have h2: "open_input_desktop probe_name_unreadable = Returns 1 \<and> (1::int) \<noteq> 0 \<and>
      get_user_object_information probe_name_unreadable = Returns (False, []) \<and>
      close_desktop probe_name_unreadable = Returns ()"
    by (simp add: probe_name_unreadable_def probe_reads_def)
  have h3: "desktop_probe_raises probe_open_raises \<and>
      get_last_input_info probe_open_raises = Returns (False, 0)"
    by (simp add: desktop_probe_raises_def probe_open_raises_def probe_reads_def)
  have h4: "desktop_probe_raises (probe_idle 1000 70000) \<and>
      get_last_input_info (probe_idle 1000 70000) = Returns (True, 1000) \<and>
      get_tick (probe_idle 1000 70000) = Returns 70000"
    by (simp add: desktop_probe_raises_def probe_idle_def probe_open_raises_def)
  have h5: "\<not> desktop_probe_raises (probe_reads ''Default'')"
    by (simp add: desktop_probe_raises_def probe_reads_def)
  have h6: "\<not> session_events init \<and> \<not> is_locked init \<and>
      probe (tick_at probe_open_raises 60) = probe_open_raises"
    by (simp add: init_def tick_at_def)
  note a = probe_failure_semantics [of probe_open_fails 1 "[]" 0 0 init True
      "tick_at probe_open_raises 60"]
  note b = probe_failure_semantics [of probe_name_unreadable 1 "[]" 0 0 init True
      "tick_at probe_open_raises 60"]
  note c = probe_failure_semantics [of probe_open_raises 1 "[]" 0 0 init True
      "tick_at probe_open_raises 60"]
  note d = probe_failure_semantics [of "probe_idle 1000 70000" 1 "[]" 1000 70000 init True
      "tick_at probe_open_raises 60"]
  note e = probe_failure_semantics [of "probe_reads ''Default''" 1 "[]" 0 0 init True
      "tick_at probe_open_raises 60"]
  have r1: "check_lock_state_fallback True probe_open_fails = Inr True"
    using a h1 by blast
  have r2: "check_lock_state_fallback True probe_name_unreadable = Inr True"
    using b h2 by blast
  have r3: "check_lock_state_fallback True probe_open_raises = Inr False"
    using c h3 by blast
  have r4: "check_lock_state_fallback True (probe_idle 1000 70000) = Inr True"
    using d h4 by simp
  have r5: "\<exists>b. check_lock_state_fallback True (probe_reads ''Default'') = Inr b"
    using e h5 by blast
  have r6: "\<exists>d'. run_timer_tick True (tick_at probe_open_raises 60) init = Inr d' \<and>
         \<not> is_locked d' \<and> lock_start_time d' = lock_start_time init"
    using c h6 r3 by simp
  from h1 h2 h3 h4 h5 h6 r1 r2 r3 r4 r5 r6 show ?thesis by blast
qed

section \<open>The polling tick\<close>

text \<open>
  C9 as stated fails: on the polling tick that sees a locked session unlocked, the
  score grows by one although the session was locked when the tick began (here after a
  break of 30 seconds, which heals nothing).
\<close>

theorem accrual_on_unlock_tick_counterexample:
  "\<not> session_events (at_score 10\<lparr>is_locked := True, lock_start_time := 100\<rparr>) \<and>
   is_locked (at_score 10\<lparr>is_locked := True, lock_start_time := 100\<rparr>) \<and>
   fatigue (at_score 10\<lparr>is_locked := True, lock_start_time := 100\<rparr>) = 10 \<and>
   run_timer_tick True (tick_at (probe_reads ''Default'') 130)
       (at_score 10\<lparr>is_locked := True, lock_start_time := 100\<rparr>) = Inr (at_score 11) \<and>
   fatigue (at_score 11) = 11 \<and> \<not> is_locked (at_score 11)"
  by (simp add: run_timer_tick_def probe_reads_Default tick_at_def at_score_unfold init_def
        handle_unlock_heal_def calculate_healing_def minutes_of_def py_int_def
        clamp_fatigue_def update_icon_def get_current_state_def settings)

text \<open>
  C9 (as amended). In polling mode, from a score in \<open>[0, 80]\<close>: on a tick where the
  probe observes unlocked while the stored state is locked, the tick computes the
  duration since the recorded lock start (0 when none is recorded), invokes
  \<^verbatim>\<open>handle_unlock_heal\<close> with it once, on the daemon with the lock state and the lock
  start cleared, and then accrues: the score ends one above the healed score when that
  is below 80. On a tick where the probe observes unlocked and the stored state is
  unlocked the score grows by one when below 80. On a tick where the probe observes
  locked the score is unchanged. The session state a polling tick leaves is the one
  its probe observed. In event-driven mode a tick changes neither the session state nor
  the lock start, and never lowers the score.
\<close>

theorem polling_tick_transitions:
  assumes "fatigue_ok d" and "run_timer_tick w e d = Inr d'"
  shows "(\<not> session_events d \<and> is_locked d \<and> \<not> is_locked d' \<longrightarrow>
            (let healed = handle_unlock_heal
                            (if lock_start_time d \<noteq> 0 then now e - lock_start_time d else 0)
                            (d\<lparr>is_locked := False, lock_start_time := 0\<rparr>)
             in d' = update_icon (clamp_fatigue
                       (if fatigue healed < LIMIT_DEATH
                        then healed\<lparr>fatigue := fatigue healed + 1\<rparr> else healed)) \<and>
                lock_start_time d' = 0 \<and>
                fatigue d' = (if fatigue healed < 80 then fatigue healed + 1
                              else fatigue healed))) \<and>
         (\<not> session_events d \<and> \<not> is_locked d \<and> \<not> is_locked d' \<longrightarrow>
            fatigue d' = (if fatigue d < 80 then fatigue d + 1 else fatigue d)) \<and>
         (\<not> session_events d \<and> is_locked d' \<longrightarrow> fatigue d' = fatigue d) \<and>
         (\<not> session_events d \<longrightarrow>
            check_lock_state_fallback w (probe e) = Inr (is_locked d')) \<and>
         (session_events d \<longrightarrow>
            is_locked d' = is_locked d \<and> lock_start_time d' = lock_start_time d \<and>
            fatigue d \<le> fatigue d' \<and> fatigue d' \<le> fatigue d + 1)"
proof (cases "session_events d")
  case True
  with assms(2) have "d' = update_icon (if \<not> is_locked d \<and> fatigue d < LIMIT_DEATH
                       then d\<lparr>fatigue := fatigue d + 1\<rparr> else d)"
    by (simp add: tick_events)
  with True show ?thesis by simp
next
  case False
  from tick_polling_probe [OF False assms(2)]
  obtain b where b: "check_lock_state_fallback w (probe e) = Inr b" ..
  from assms(1) have r: "0 \<le> fatigue d" "fatigue d \<le> 80"
    by (simp_all add: fatigue_ok_def settings)
  have hr: "0 \<le> fatigue (handle_unlock_heal t x)" "fatigue (handle_unlock_heal t x) \<le> 80"
    for t x
    by (simp_all add: fatigue_handle_unlock_heal settings)
  show ?thesis
  proof (cases b)
    case True
    with b False assms(2) r show ?thesis
      by (cases "is_locked d") (auto simp: run_timer_tick_def Let_def settings)
  next
    case nb: False
    show ?thesis
    proof (cases "is_locked d")
      case True
      with b nb False assms(2) have
        "d' = update_icon (clamp_fatigue
           (let healed = handle_unlock_heal
                            (if lock_start_time d \<noteq> 0 then now e - lock_start_time d else 0)
                            (d\<lparr>is_locked := False, lock_start_time := 0\<rparr>)
            in if fatigue healed < LIMIT_DEATH
               then healed\<lparr>fatigue := fatigue healed + 1\<rparr> else healed))"
        by (simp add: run_timer_tick_def Let_def)
      with b nb False True hr show ?thesis
        by (simp add: Let_def settings)
    next
      case ul: False
      with b nb False assms(2) r show ?thesis
        by (auto simp: run_timer_tick_def Let_def settings)
    qed
  qed
qed

theorem polling_tick_transitions_witness:
  "fatigue_ok (at_score 50\<lparr>is_locked := True, lock_start_time := 100\<rparr>) \<and>
   \<not> session_events (at_score 50\<lparr>is_locked := True, lock_start_time := 100\<rparr>) \<and>
   is_locked (at_score 50\<lparr>is_locked := True, lock_start_time := 100\<rparr>) \<and>
   run_timer_tick True (tick_at (probe_reads ''Default'') 280)
       (at_score 50\<lparr>is_locked := True, lock_start_time := 100\<rparr>) =
     Inr (at_score 45) \<and>
   \<not> is_locked (at_score 45) \<and>
   lock_start_time (at_score 45) = 0 \<and>
   fatigue (handle_unlock_heal 180 (at_score 50)) = 44 \<and>
   fatigue (at_score 45) = 44 + 1 \<and>
   fatigue_ok (at_score 30) \<and> \<not> session_events (at_score 30) \<and>
   run_timer_tick True (tick_at (probe_reads ''Winlogon'') 60) (at_score 30) =
     Inr (at_score 30\<lparr>is_locked := True, lock_start_time := 60\<rparr>) \<and>
   is_locked (at_score 30\<lparr>is_locked := True, lock_start_time := 60\<rparr>) \<and>
   fatigue (at_score 30\<lparr>is_locked := True, lock_start_time := 60\<rparr>) =
     fatigue (at_score 30) \<and>
   fatigue_ok (at_score 75\<lparr>session_events := True\<rparr>) \<and>
   session_events (at_score 75\<lparr>session_events := True\<rparr>) \<and>
   run_timer_tick True (tick_at (probe_reads ''Default'') 60)
       (at_score 75\<lparr>session_events := True\<rparr>) =
     Inr (at_score 76\<lparr>session_events := True\<rparr>) \<and>
   is_locked (at_score 76\<lparr>session_events := True\<rparr>) =
     is_locked (at_score 75\<lparr>session_events := True\<rparr>) \<and>
   fatigue (at_score 75\<lparr>session_events := True\<rparr>) \<le>
     fatigue (at_score 76\<lparr>session_events := True\<rparr>)"
proof -
  let ?d = "at_score 50\<lparr>is_locked := True, lock_start_time := 100\<rparr>"
  let ?e = "tick_at (probe_reads ''Default'') 280"
  let ?d' = "at_score 45"
  let ?healed = "handle_unlock_heal
                   (if lock_start_time ?d \<noteq> 0 then now ?e - lock_start_time ?d else 0)
                   (?d\<lparr>is_locked := False, lock_start_time := 0\<rparr>)"
  let ?a = "at_score 75\<lparr>session_events := True\<rparr>"
  let ?a' = "at_score 76\<lparr>session_events := True\<rparr>"
  let ?b = "at_score 30"
  let ?b' = "at_score 30\<lparr>is_locked := True, lock_start_time := 60\<rparr>"
  let ?u = "tick_at (probe_reads ''Default'') 60"
  let ?l = "tick_at (probe_reads ''Winlogon'') 60"
  have h1: "fatigue_ok ?d"
    by (simp add: fatigue_ok_def at_score_unfold settings)
  have h2: "run_timer_tick True ?e ?d = Inr ?d'"
    by (simp add: run_timer_tick_def probe_reads_Default tick_at_def at_score_unfold init_def
        handle_unlock_heal_def calculate_healing_def minutes_of_def py_int_def
        clamp_fatigue_def update_icon_def get_current_state_def safe_notify_def settings)
  have h3: "\<not> session_events ?d \<and> is_locked ?d \<and> \<not> is_locked ?d'"
    by (simp add: at_score_unfold init_def)
  have h4: "fatigue (handle_unlock_heal 180 (at_score 50)) = 44"
    by (simp add: fatigue_handle_unlock_heal calculate_healing_def minutes_of_def py_int_def
          at_score_unfold settings)
  have h5: "?healed = handle_unlock_heal 180 (at_score 50)"
    by (simp add: at_score_unfold init_def tick_at_def)
  note t = polling_tick_transitions [OF h1 h2, unfolded Let_def]
  from t have "\<not> session_events ?d \<and> is_locked ?d \<and> \<not> is_locked ?d' \<longrightarrow>
      ?d' = update_icon (clamp_fatigue
              (if fatigue ?healed < LIMIT_DEATH
               then ?healed\<lparr>fatigue := fatigue ?healed + 1\<rparr> else ?healed)) \<and>
      lock_start_time ?d' = 0 \<and>
      fatigue ?d' = (if fatigue ?healed < 80 then fatigue ?healed + 1 else fatigue ?healed)"
    by (rule conjunct1)
  with h3 have t1: "lock_start_time ?d' = 0" and
    t2: "fatigue ?d' = (if fatigue ?healed < 80 then fatigue ?healed + 1 else fatigue ?healed)"
    by blast+
  from t2 h4 have t3: "fatigue ?d' = 44 + 1"
    unfolding h5 by simp
  have k1: "fatigue_ok ?b"
    by (simp add: fatigue_ok_def at_score_unfold settings)
  have k2: "run_timer_tick True ?l ?b = Inr ?b'"
    by (simp add: run_timer_tick_def probe_reads_Winlogon tick_at_def at_score_unfold init_def
          clamp_fatigue_def update_icon_def get_current_state_def settings)
  have k3: "\<not> session_events ?b \<and> is_locked ?b'"
    by (simp add: at_score_unfold init_def)
  from polling_tick_transitions [OF k1 k2] k3 have k4: "fatigue ?b' = fatigue ?b"
    by blast
  have m1: "fatigue_ok ?a"
    by (simp add: fatigue_ok_def at_score_unfold settings)
  have m2: "run_timer_tick True ?u ?a = Inr ?a'"
    by (simp add: tick_events at_score_unfold init_def update_icon_def get_current_state_def
          settings)
  have m3: "session_events ?a"
    by (simp add: at_score_unfold)
  from polling_tick_transitions [OF m1 m2] m3
  have m4: "is_locked ?a' = is_locked ?a \<and> fatigue ?a \<le> fatigue ?a'"
    by blast
  from h1 h2 h3 h4 t1 t3 k1 k2 k3 k4 m1 m2 m3 m4 show ?thesis by blast
qed

section \<open>Installing the hook\<close>

lemma c_void_p_void_p_result [simp]: "c_void_p (void_p_result p) = p"
  by (simp add: void_p_result_def)

lemma truthy_void_p_result [simp]: "truthy (void_p_result p) = (p \<noteq> 0)"
  by (simp add: void_p_result_def)

lemma install_swap_fails:
  assumes "winfo_id e = Returns h" "get_window_long e = Returns orig" "swap_result e = Returns 0"
  shows "install_session_notifications True e d =
           Inr (d\<lparr>hwnd := Some h, wndproc := None, orig_wndproc := None,
                  session_events := False\<rparr>,
                [GetWindowLongPtrW h, SetWindowLongPtrW h (py_wndproc_ptr e)])"
  using assms by (simp add: install_session_notifications_def Let_def)

lemma install_register_fails:
  assumes "winfo_id e = Returns h" "get_window_long e = Returns orig"
    "swap_result e = Returns prev" "prev \<noteq> 0"
    "register_result e = Returns False" "rollback_result e = Returns r"
  shows "install_session_notifications True e d =
           Inr (d\<lparr>hwnd := Some h, wndproc := None, orig_wndproc := None,
                  session_events := False\<rparr>,
                [GetWindowLongPtrW h, SetWindowLongPtrW h (py_wndproc_ptr e),
                 WTSRegisterSessionNotification h, SetWindowLongPtrW h orig])"
  using assms by (simp add: install_session_notifications_def Let_def)

lemma install_succeeds:
  assumes "winfo_id e = Returns h" "get_window_long e = Returns orig"
    "swap_result e = Returns prev" "prev \<noteq> 0" "register_result e = Returns True"
  shows "install_session_notifications True e d =
           Inr (d\<lparr>hwnd := Some h, wndproc := Some (py_wndproc_ptr e),
                  orig_wndproc := void_p_result orig, session_events := True\<rparr>,
                [GetWindowLongPtrW h, SetWindowLongPtrW h (py_wndproc_ptr e),
                 WTSRegisterSessionNotification h])"
  using assms by (simp add: install_session_notifications_def Let_def)

lemma uninstall_nothing_installed:
  assumes "\<not> session_events d" "wndproc d = None \<or> orig_wndproc d = None"
  shows "uninstall_session_notifications True ue d =
           Inr (d\<lparr>session_events := False, wndproc := None, orig_wndproc := None,
                  hwnd := None\<rparr>, [])"
  using assms by (auto simp: uninstall_session_notifications_def uninstall_try_def Let_def)

lemma uninstall_installed:
  assumes "hwnd d = Some h" "h \<noteq> 0" "session_events d" "orig_wndproc d = Some orig"
    "orig \<noteq> 0" "wndproc d = Some p" "unregister_result ue \<noteq> Raises"
  shows "uninstall_session_notifications True ue d =
           Inr (d\<lparr>session_events := False, wndproc := None, orig_wndproc := None,
                  hwnd := None\<rparr>,
                [WTSUnRegisterSessionNotification h, SetWindowLongPtrW h orig])"
  using assms by (auto simp: uninstall_session_notifications_def uninstall_try_def Let_def)

lemma uninstall_returns:
  "\<exists>calls. uninstall_session_notifications True ue d =
      Inr (d\<lparr>session_events := False, wndproc := None, orig_wndproc := None,
             hwnd := None\<rparr>, calls)"
  by (simp add: uninstall_session_notifications_def Let_def)

lemma uninstall_elsewhere: "uninstall_session_notifications False ue d = Inr (d, [])"
  by (simp add: uninstall_session_notifications_def)

lemma install_elsewhere: "install_session_notifications False e d = Inr (d, [])"
  by (simp add: install_session_notifications_def)

text \<open>Off Windows no operation touches the four fields of the hook.\<close>

lemma hook_fields_tick:
  "run_timer_tick w e d = Inr d' \<Longrightarrow> hook_fields d' = hook_fields d"
  by (auto simp: run_timer_tick_def hook_fields_def Let_def split: if_splits sum.splits)

lemma hook_fields_py_wndproc: "hook_fields (py_wndproc m p t d) = hook_fields d"
  by (simp add: py_wndproc_def hook_fields_def Let_def)

lemma hook_fields_resurrect: "hook_fields (resurrect d) = hook_fields d"
  by (simp add: resurrect_def hook_fields_def)

lemma hook_fields_step:
  assumes "step False ev d = Inr d'"
  shows "hook_fields d' = hook_fields d"
proof (cases ev)
  case (Tick e)
  with assms show ?thesis by (simp add: hook_fields_tick)
next
  case (Message m p t)
  with assms show ?thesis by (auto simp: hook_fields_py_wndproc)
next
  case Manual_Reset
  with assms show ?thesis by (auto simp: hook_fields_resurrect)
next
  case (Install e)
  with assms show ?thesis by (auto simp: install_elsewhere)
next
  case (Uninstall e)
  with assms show ?thesis by (auto simp: uninstall_elsewhere)
qed

lemma hook_fields_run:
  "run False evs d = Inr d' \<Longrightarrow> hook_fields d' = hook_fields d"
proof (induction evs arbitrary: d)
  case Nil
  then show ?case by simp
next
  case (Cons ev evs)
  show ?case
  proof (cases "step False ev d")
    case (Inl x)
    with Cons.prems show ?thesis by simp
  next
    case (Inr d1)
    with Cons.prems have "run False evs d1 = Inr d'" by simp
    with Cons.IH have "hook_fields d' = hook_fields d1" .
    with hook_fields_step [OF Inr] show ?thesis by simp
  qed
qed

text \<open>
  C7 (as amended). Let every native call of the installation return. If the
  window-procedure swap reports failure (returns null), or the swap succeeds and the
  registration reports failure (returns false), then installation returns normally; the
  stored callback and the stored original pointer are cleared and session events are
  marked inactive, so the mode is polling, while the window handle stays recorded; the
  call restoring the original pointer is issued, as the last call, exactly when the
  swap had succeeded; a later removal of the hook issues no native call; and a
  following tick whose probe answers locked sets the session to locked.
\<close>

theorem install_failure_rolls_back:
  assumes "winfo_id e = Returns h" and "get_window_long e = Returns orig"
    and "swap_result e = Returns prev"
    and "prev = 0 \<or> (register_result e = Returns False \<and> rollback_result e = Returns r)"
  shows "(let d' = d\<lparr>hwnd := Some h, wndproc := None, orig_wndproc := None,
                      session_events := False\<rparr>
          in install_session_notifications True e d =
               Inr (d', [GetWindowLongPtrW h, SetWindowLongPtrW h (py_wndproc_ptr e)] @
                        (if prev \<noteq> 0
                         then [WTSRegisterSessionNotification h, SetWindowLongPtrW h orig]
                         else [])) \<and>
             \<not> session_events d' \<and> wndproc d' = None \<and> orig_wndproc d' = None \<and>
             hwnd d' = Some h \<and>
             uninstall_session_notifications True ue d' = Inr (d'\<lparr>hwnd := None\<rparr>, []) \<and>
             (check_lock_state_fallback True (probe te) = Inr True \<longrightarrow>
                (\<exists>d''. run_timer_tick True te d' = Inr d'' \<and> is_locked d'')))"
proof -
  let ?d' = "d\<lparr>hwnd := Some h, wndproc := None, orig_wndproc := None,
               session_events := False\<rparr>"
  have i: "install_session_notifications True e d =
             Inr (?d', [GetWindowLongPtrW h, SetWindowLongPtrW h (py_wndproc_ptr e)] @
                        (if prev \<noteq> 0
                         then [WTSRegisterSessionNotification h, SetWindowLongPtrW h orig]
                         else []))"
  proof (cases "prev = 0")
    case True
    with assms show ?thesis by (simp add: install_swap_fails [of e h orig d])
  next
    case False
    with assms show ?thesis
      by (simp add: install_register_fails [of e h orig prev r d])
  qed
  have u: "uninstall_session_notifications True ue ?d' = Inr (?d'\<lparr>hwnd := None\<rparr>, [])"
    by (simp add: uninstall_nothing_installed)
  have t: "check_lock_state_fallback True (probe te) = Inr True \<Longrightarrow>
             \<exists>d''. run_timer_tick True te ?d' = Inr d'' \<and> is_locked d''"
    using tick_polling_locked [of ?d' True te] by auto
  from i u t show ?thesis unfolding Let_def by auto
qed

theorem install_failure_rolls_back_witness:
  "install_session_notifications True (install_ok\<lparr>swap_result := Returns 0\<rparr>) init =
     Inr (init\<lparr>hwnd := Some 4242\<rparr>,
          [GetWindowLongPtrW 4242, SetWindowLongPtrW 4242 2000]) \<and>
   install_session_notifications True (install_ok\<lparr>register_result := Returns False\<rparr>) init =
     Inr (init\<lparr>hwnd := Some 4242\<rparr>,
          [GetWindowLongPtrW 4242, SetWindowLongPtrW 4242 2000,
           WTSRegisterSessionNotification 4242, SetWindowLongPtrW 4242 1000]) \<and>
   uninstall_session_notifications True uninstall_ok (init\<lparr>hwnd := Some 4242\<rparr>) =
     Inr (init, []) \<and>
   check_lock_state_fallback True (probe (tick_at (probe_reads ''Winlogon'') 60)) = Inr True \<and>
   (\<exists>d''. run_timer_tick True (tick_at (probe_reads ''Winlogon'') 60)
             (init\<lparr>hwnd := Some 4242\<rparr>) = Inr d'' \<and> is_locked d'')"
proof -
  let ?te = "tick_at (probe_reads ''Winlogon'') 60"
  have c: "init\<lparr>hwnd := Some 4242, wndproc := None, orig_wndproc := None,
                session_events := False\<rparr> = init\<lparr>hwnd := Some 4242\<rparr>"
    "init\<lparr>hwnd := None\<rparr> = init"
    by (simp_all add: init_def)
  have p: "check_lock_state_fallback True (probe ?te) = Inr True"
    by (simp add: tick_at_def probe_reads_Winlogon)
  have a: "winfo_id (install_ok\<lparr>swap_result := Returns 0\<rparr>) = Returns 4242"
    "get_window_long (install_ok\<lparr>swap_result := Returns 0\<rparr>) = Returns 1000"
    "swap_result (install_ok\<lparr>swap_result := Returns 0\<rparr>) = Returns 0"
    "(0::nat) = 0 \<or>
       (register_result (install_ok\<lparr>swap_result := Returns 0\<rparr>) = Returns False \<and>
        rollback_result (install_ok\<lparr>swap_result := Returns 0\<rparr>) = Returns 2000)"
    "py_wndproc_ptr (install_ok\<lparr>swap_result := Returns 0\<rparr>) = 2000"
    by (simp_all add: install_ok_def)
  have b: "winfo_id (install_ok\<lparr>register_result := Returns False\<rparr>) = Returns 4242"
    "get_window_long (install_ok\<lparr>register_result := Returns False\<rparr>) = Returns 1000"
    "swap_result (install_ok\<lparr>register_result := Returns False\<rparr>) = Returns 1000"
    "(1000::nat) = 0 \<or>
       (register_result (install_ok\<lparr>register_result := Returns False\<rparr>) = Returns False \<and>
        rollback_result (install_ok\<lparr>register_result := Returns False\<rparr>) = Returns 2000)"
    "py_wndproc_ptr (install_ok\<lparr>register_result := Returns False\<rparr>) = 2000"
    by (simp_all add: install_ok_def)
  from install_failure_rolls_back [OF a(1-4), of init uninstall_ok ?te]
    install_failure_rolls_back [OF b(1-4), of init uninstall_ok ?te] p
  show ?thesis
    unfolding Let_def c(1) a(5) b(5) by (simp add: c(2))
qed

text \<open>
  C7 as stated fails. After a swap that reports failure the daemon is not as before the
  installation: it holds the window handle. And a failure that arrives as an exception
  leaves the method: a registration that reports failure followed by a restoring call
  that raises, or a swap that raises.
\<close>

theorem install_not_as_before_counterexample:
  "install_session_notifications True (install_ok\<lparr>swap_result := Returns 0\<rparr>) init =
     Inr (init\<lparr>hwnd := Some 4242\<rparr>,
          [GetWindowLongPtrW 4242, SetWindowLongPtrW 4242 2000]) \<and>
   hwnd (init\<lparr>hwnd := Some 4242\<rparr>) = Some 4242 \<and> hwnd init = None \<and>
   install_session_notifications True
       (install_ok\<lparr>register_result := Returns False, rollback_result := Raises\<rparr>) init =
     Inl Native_Exception \<and>
   install_session_notifications True (install_ok\<lparr>swap_result := Raises\<rparr>) init =
     Inl Native_Exception"
  by (simp add: install_session_notifications_def install_ok_def init_def void_p_result_def
        Let_def)

section \<open>Removing the hook\<close>

text \<open>
  C8. Removing the hook always returns, whatever the prior state and whatever its
  native calls do. On Windows it ends with session events inactive and no stored
  callback, original pointer or window handle. After an installation on which every
  call succeeded it issues the unregistration and then the call restoring the original
  pointer (given that the unregistration returns). A second removal issues no native
  call and changes nothing, and so does a removal from the initial state. Off Windows
  removal changes nothing. In every state reachable from the initial one, on either
  platform, removal leaves no registered session events and no stored pointer.
\<close>

theorem uninstall_never_raises:
  "(\<exists>calls. uninstall_session_notifications True ue d =
       Inr (d\<lparr>session_events := False, wndproc := None, orig_wndproc := None,
              hwnd := None\<rparr>, calls)) \<and>
   uninstall_session_notifications False ue d = Inr (d, []) \<and>
   (winfo_id ie = Returns h \<and> h \<noteq> 0 \<and> get_window_long ie = Returns orig \<and> orig \<noteq> 0 \<and>
    swap_result ie = Returns prev \<and> prev \<noteq> 0 \<and> register_result ie = Returns True \<and>
    unregister_result ue \<noteq> Raises \<longrightarrow>
      (\<exists>d1 c1. install_session_notifications True ie d = Inr (d1, c1) \<and> session_events d1 \<and>
         uninstall_session_notifications True ue d1 =
           Inr (d\<lparr>session_events := False, wndproc := None, orig_wndproc := None,
                  hwnd := None\<rparr>,
                [WTSUnRegisterSessionNotification h, SetWindowLongPtrW h orig]))) \<and>
   uninstall_session_notifications True ue'
       (d\<lparr>session_events := False, wndproc := None, orig_wndproc := None, hwnd := None\<rparr>) =
     Inr (d\<lparr>session_events := False, wndproc := None, orig_wndproc := None,
            hwnd := None\<rparr>, []) \<and>
   uninstall_session_notifications w ue init = Inr (init, []) \<and>
   (run w evs init = Inr dr \<longrightarrow>
      (\<exists>d' calls. uninstall_session_notifications w ue dr = Inr (d', calls) \<and>
         \<not> session_events d' \<and> wndproc d' = None \<and> orig_wndproc d' = None \<and>
         hwnd d' = None))"
proof -
  have 1: "\<exists>calls. uninstall_session_notifications True ue d =
       Inr (d\<lparr>session_events := False, wndproc := None, orig_wndproc := None,
              hwnd := None\<rparr>, calls)"
    by (rule uninstall_returns)
  have 2: "uninstall_session_notifications False ue d = Inr (d, [])"
    by (rule uninstall_elsewhere)
  have 3: "\<exists>d1 c1. install_session_notifications True ie d = Inr (d1, c1) \<and> session_events d1 \<and>
         uninstall_session_notifications True ue d1 =
           Inr (d\<lparr>session_events := False, wndproc := None, orig_wndproc := None,
                  hwnd := None\<rparr>,
                [WTSUnRegisterSessionNotification h, SetWindowLongPtrW h orig])"
    if a: "winfo_id ie = Returns h \<and> h \<noteq> 0 \<and> get_window_long ie = Returns orig \<and> orig \<noteq> 0 \<and>
      swap_result ie = Returns prev \<and> prev \<noteq> 0 \<and> register_result ie = Returns True \<and>
      unregister_result ue \<noteq> Raises"
  proof -
    let ?d1 = "d\<lparr>hwnd := Some h, wndproc := Some (py_wndproc_ptr ie),
                  orig_wndproc := void_p_result orig, session_events := True\<rparr>"
    from a have i: "install_session_notifications True ie d =
        Inr (?d1, [GetWindowLongPtrW h, SetWindowLongPtrW h (py_wndproc_ptr ie),
                   WTSRegisterSessionNotification h])"
      by (simp add: install_succeeds [of ie h orig prev d])
    from a have "uninstall_session_notifications True ue ?d1 =
        Inr (?d1\<lparr>session_events := False, wndproc := None, orig_wndproc := None,
                  hwnd := None\<rparr>,
             [WTSUnRegisterSessionNotification h, SetWindowLongPtrW h orig])"
      by (intro uninstall_installed [of ?d1 h orig "py_wndproc_ptr ie" ue])
         (simp_all add: void_p_result_def)
    with i show ?thesis by simp
  qed
  have 4: "uninstall_session_notifications True ue'
       (d\<lparr>session_events := False, wndproc := None, orig_wndproc := None, hwnd := None\<rparr>) =
     Inr (d\<lparr>session_events := False, wndproc := None, orig_wndproc := None,
            hwnd := None\<rparr>, [])"
    by (simp add: uninstall_nothing_installed)
  have 5: "uninstall_session_notifications w ue init = Inr (init, [])"
    by (cases w) (simp_all add: uninstall_nothing_installed uninstall_elsewhere init_def)
  have 6: "\<exists>d' calls. uninstall_session_notifications w ue dr = Inr (d', calls) \<and>
         \<not> session_events d' \<and> wndproc d' = None \<and> orig_wndproc d' = None \<and>
         hwnd d' = None"
    if r: "run w evs init = Inr dr"
  proof (cases w)
    case True
    with uninstall_returns [of ue dr] show ?thesis by auto
  next
    case False
    with r have "hook_fields dr = hook_fields init" by (simp add: hook_fields_run)
    then have "\<not> session_events dr \<and> wndproc dr = None \<and> orig_wndproc dr = None \<and>
        hwnd dr = None"
      by (simp add: hook_fields_def init_def)
    with False show ?thesis by (simp add: uninstall_elsewhere)
  qed
  from 1 2 3 4 5 6 show ?thesis by blast
qed

theorem uninstall_never_raises_witness:
  "winfo_id install_ok = Returns 4242 \<and> get_window_long install_ok = Returns 1000 \<and>
   swap_result install_ok = Returns 1000 \<and> register_result install_ok = Returns True \<and>
   unregister_result uninstall_ok \<noteq> Raises \<and>
   (\<exists>d1 c1. install_session_notifications True install_ok init = Inr (d1, c1) \<and>
      session_events d1 \<and>
      uninstall_session_notifications True uninstall_ok d1 =
        Inr (init, [WTSUnRegisterSessionNotification 4242, SetWindowLongPtrW 4242 1000])) \<and>
   uninstall_session_notifications True uninstall_ok init = Inr (init, []) \<and>
   run True [Install install_ok, Tick (tick_at (probe_reads ''Default'') 60)] init =
     Inr (init\<lparr>fatigue := 1, hwnd := Some 4242, wndproc := Some 2000,
               orig_wndproc := Some 1000, session_events := True\<rparr>) \<and>
   (\<exists>d' calls. uninstall_session_notifications True uninstall_ok
        (init\<lparr>fatigue := 1, hwnd := Some 4242, wndproc := Some 2000,
               orig_wndproc := Some 1000, session_events := True\<rparr>) = Inr (d', calls) \<and>
      \<not> session_events d' \<and> wndproc d' = None \<and> orig_wndproc d' = None \<and> hwnd d' = None)"
proof -
  let ?evs = "[Install install_ok, Tick (tick_at (probe_reads ''Default'') 60)]"
  let ?dr = "init\<lparr>fatigue := 1, hwnd := Some 4242, wndproc := Some 2000,
               orig_wndproc := Some 1000, session_events := True\<rparr>"
  have c: "init\<lparr>session_events := False, wndproc := None, orig_wndproc := None,
                hwnd := None\<rparr> = init"
    by (simp add: init_def)
  have a: "winfo_id install_ok = Returns 4242 \<and> (4242::nat) \<noteq> 0 \<and>
      get_window_long install_ok = Returns 1000 \<and> (1000::nat) \<noteq> 0 \<and>
      swap_result install_ok = Returns 1000 \<and> (1000::nat) \<noteq> 0 \<and>
      register_result install_ok = Returns True \<and> unregister_result uninstall_ok \<noteq> Raises"
    by (simp add: install_ok_def uninstall_ok_def)
  have r: "run True ?evs init = Inr ?dr"
    by (simp add: install_session_notifications_def install_ok_def void_p_result_def
          tick_events init_def update_icon_def get_current_state_def Let_def settings)
  note t = uninstall_never_raises [of uninstall_ok init install_ok 4242 1000 1000
      uninstall_ok True ?evs ?dr, unfolded c]
  from t a have 3: "\<exists>d1 c1. install_session_notifications True install_ok init = Inr (d1, c1) \<and>
      session_events d1 \<and>
      uninstall_session_notifications True uninstall_ok d1 =
        Inr (init, [WTSUnRegisterSessionNotification 4242, SetWindowLongPtrW 4242 1000])"
    by blast
  from t have 4: "uninstall_session_notifications True uninstall_ok init = Inr (init, [])"
    by blast
  from t r have 6: "\<exists>d' calls. uninstall_session_notifications True uninstall_ok ?dr =
        Inr (d', calls) \<and>
      \<not> session_events d' \<and> wndproc d' = None \<and> orig_wndproc d' = None \<and> hwnd d' = None"
    by blast
  from a r 3 4 6 show ?thesis by blast
qed

end
